theory Spec2Isabelle
  imports Complex_Main "HOL-Library.Sublist"
begin

section \<open>Common conventions\<close>

text \<open>
  Two HTTP services are embedded: the order service (\<^verbatim>\<open>order-svc/main.py\<close>) and the
  product service (\<^verbatim>\<open>product-svc/app.py\<close>). Each keeps its records in a module-level
  Python list; a handler is modelled as a function from the list before the request to
  its outcome and the list after the request.

  \<^item> A raised \<^verbatim>\<open>HTTPException\<close>, an error response and an uncaught Python exception
    are values of \<open>error\<close>; \<open>ValidationError\<close> carries the HTTP status (400 or 422).
  \<^item> Only the \<^verbatim>\<open>data\<close> payload of a response envelope is returned; the constant
    service tag, the count (the length of the payload) and the response timestamp are
    left out.
  \<^item> \<^verbatim>\<open>uuid.uuid4()\<close> and \<^verbatim>\<open>datetime.utcnow().isoformat()\<close> read the
    environment; their results are arguments (\<open>uid\<close>, \<open>now\<close>) of the handlers that call
    them.
  \<^item> Python floats are modelled by the rational numbers their decimal literals denote and
    arithmetic on them is exact: rounding, overflow, infinities and NaN are not modelled.
\<close>

datatype error = ValidationError nat | NotFound | InternalError

text \<open>Python truthiness of an \<^verbatim>\<open>Optional[str]\<close>: \<^verbatim>\<open>None\<close> and \<^verbatim>\<open>""\<close> are falsy.\<close>

fun truthy_str :: "string option \<Rightarrow> bool" where
  "truthy_str None = False"
| "truthy_str (Some s) = (s \<noteq> [])"

text \<open>
  \<^verbatim>\<open>next((x for x in xs if P(x)), None)\<close> is \<^const>\<open>List.find\<close>. The dictionary it yields
  is then mutated in place: the first element satisfying \<open>P\<close> is replaced, the others
  stay as they are.
\<close>

fun update_first :: "('a \<Rightarrow> bool) \<Rightarrow> ('a \<Rightarrow> 'a) \<Rightarrow> 'a list \<Rightarrow> 'a list" where
  "update_first P f [] = []"
| "update_first P f (x # xs) = (if P x then f x # xs else x # update_first P f xs)"

section \<open>Order service\<close>

subsection \<open>Data\<close>

record order_item =
  oi_product_id :: string
  oi_quantity :: int
  oi_price :: rat

record order_create =
  oc_user_id :: string
  oc_items :: "order_item list"
  oc_shipping_address :: string

text \<open>
  A stored order is a dictionary; the key \<^verbatim>\<open>updated_at\<close> is absent until the first
  status update.
\<close>

record order =
  o_id :: string
  o_user_id :: string
  o_items :: "order_item list"
  o_total_amount :: rat
  o_status :: string
  o_shipping_address :: string
  o_created_at :: string
  o_updated_at :: "string option"

text \<open>The seed of the module-level list \<^verbatim>\<open>orders\<close>.\<close>

definition orders :: "order list" where
  "orders =
    [\<lparr>o_id = ''order-1'', o_user_id = ''1'',
      o_items = [\<lparr>oi_product_id = ''1'', oi_quantity = 1, oi_price = 999.99\<rparr>,
                 \<lparr>oi_product_id = ''4'', oi_quantity = 2, oi_price = 149.99\<rparr>],
      o_total_amount = 1299.97, o_status = ''completed'',
      o_shipping_address = ''123 Main St, City, State'',
      o_created_at = ''2024-01-15T10:30:00Z'', o_updated_at = None\<rparr>,
     \<lparr>o_id = ''order-2'', o_user_id = ''2'',
      o_items = [\<lparr>oi_product_id = ''2'', oi_quantity = 1, oi_price = 699.99\<rparr>],
      o_total_amount = 699.99, o_status = ''pending'',
      o_shipping_address = ''456 Oak Ave, Town, State'',
      o_created_at = ''2024-01-16T14:20:00Z'', o_updated_at = None\<rparr>]"

subsection \<open>Handlers\<close>

text \<open>
  \<^verbatim>\<open>get_orders\<close>: the two filters are applied in turn, each only when its argument is
  truthy.
\<close>

definition get_orders :: "string option \<Rightarrow> string option \<Rightarrow> order list \<Rightarrow> order list" where
  "get_orders user_id status st =
    (let filtered_orders = st;
         filtered_orders =
           (if truthy_str user_id
            then filter (\<lambda>od. o_user_id od = the user_id) filtered_orders
            else filtered_orders);
         filtered_orders =
           (if truthy_str status
            then filter (\<lambda>od. o_status od = the status) filtered_orders
            else filtered_orders)
     in filtered_orders)"

definition get_order :: "string \<Rightarrow> order list \<Rightarrow> error + order" where
  "get_order order_id st =
    (case find (\<lambda>od. o_id od = order_id) st of
       None \<Rightarrow> Inl NotFound
     | Some order \<Rightarrow> Inr order)"

text \<open>
  The constraints \<^verbatim>\<open>Field(gt=0)\<close> of \<^verbatim>\<open>OrderItem\<close>. The framework validates the body
  against \<^verbatim>\<open>OrderCreate\<close> before the handler runs and answers 422 when an item
  violates them; \<^verbatim>\<open>items: List[OrderItem]\<close> carries no length constraint.
\<close>

definition order_item_valid :: "order_item \<Rightarrow> bool" where
  "order_item_valid item = (0 < oi_quantity item \<and> 0 < oi_price item)"

text \<open>
  \<^verbatim>\<open>sum(item.quantity * item.price for item in items)\<close>: Python's \<^verbatim>\<open>sum\<close> starts
  from 0 and adds from the left.
\<close>

definition py_sum :: "rat list \<Rightarrow> rat" where
  "py_sum xs = foldl (+) 0 xs"

definition create_order ::
  "string \<Rightarrow> string \<Rightarrow> order_create \<Rightarrow> order list \<Rightarrow> (error + order) \<times> order list" where
  "create_order uid now order_data st =
    (if \<not> list_all order_item_valid (oc_items order_data) then (Inl (ValidationError 422), st)
     else
       let total_amount =
             py_sum (map (\<lambda>item. of_int (oi_quantity item) * oi_price item) (oc_items order_data));
           new_order =
             \<lparr>o_id = ''order-'' @ uid,
              o_user_id = oc_user_id order_data,
              o_items = oc_items order_data,
              o_total_amount = total_amount,
              o_status = ''pending'',
              o_shipping_address = oc_shipping_address order_data,
              o_created_at = now,
              o_updated_at = None\<rparr>
       in (Inr new_order, st @ [new_order]))"

text \<open>
  \<^verbatim>\<open>update_order_status\<close>: the list \<^verbatim>\<open>valid_statuses\<close> is local to the handler. The
  membership test comes before the lookup of the order, and both come before the two
  assignments.
\<close>

definition valid_statuses :: "string list" where
  "valid_statuses = [''pending'', ''processing'', ''shipped'', ''delivered'', ''cancelled'']"

definition update_order_status ::
  "string \<Rightarrow> string \<Rightarrow> string \<Rightarrow> order list \<Rightarrow> (error + order) \<times> order list" where
  "update_order_status order_id status now st =
    (if status \<notin> set valid_statuses then (Inl (ValidationError 400), st)
     else
       case find (\<lambda>od. o_id od = order_id) st of
         None \<Rightarrow> (Inl NotFound, st)
       | Some order \<Rightarrow>
           let set_fields = (\<lambda>od. od\<lparr>o_status := status, o_updated_at := Some now\<rparr>)
           in (Inr (set_fields order), update_first (\<lambda>od. o_id od = order_id) set_fields st))"

definition cancel_order :: "string \<Rightarrow> order list \<Rightarrow> (error + unit) \<times> order list" where
  "cancel_order order_id st = (Inr (), filter (\<lambda>od. o_id od \<noteq> order_id) st)"

text \<open>
  One request to the order service, and the list of orders it leaves behind. A history of
  the service is a list of requests run from the seed.
\<close>

datatype order_request =
    ListOrders "string option" "string option"
  | GetOrder string
  | CreateOrder string string order_create
  | UpdateOrderStatus string string string
  | CancelOrder string

fun order_step :: "order_request \<Rightarrow> order list \<Rightarrow> order list" where
  "order_step (ListOrders user_id status) st = st"
| "order_step (GetOrder order_id) st = st"
| "order_step (CreateOrder uid now order_data) st = snd (create_order uid now order_data st)"
| "order_step (UpdateOrderStatus order_id status now) st =
     snd (update_order_status order_id status now st)"
| "order_step (CancelOrder order_id) st = snd (cancel_order order_id st)"





section \<open>Product service\<close>

subsection \<open>Data\<close>

text \<open>
  A request body is whatever \<^verbatim>\<open>request.get_json()\<close> yields: any JSON value, with
  \<open>JNull\<close> for \<^verbatim>\<open>None\<close>. An object is the association list of its keys, each key
  once; \<^const>\<open>map_of\<close> looks a key up. A body that is not JSON at all is answered by
  the framework before any line of a handler runs, and is not a request here.
\<close>

datatype json =
    JNull
  | JBool bool
  | JInt int
  | JFloat rat
  | JStr string
  | JArr "json list"
  | JObj "(string \<times> json) list"

text \<open>
  A stored product is a dictionary. \<^verbatim>\<open>name\<close>, \<^verbatim>\<open>category\<close> and \<^verbatim>\<open>stock\<close> hold
  whatever JSON value the request carried; \<^verbatim>\<open>price\<close> is always the result of
  \<^verbatim>\<open>float(...)\<close>. The seeds have neither \<^verbatim>\<open>created_at\<close> nor \<^verbatim>\<open>updated_at\<close>.
\<close>

record product =
  p_id :: string
  p_name :: json
  p_price :: rat
  p_category :: json
  p_stock :: json
  p_created_at :: "string option"
  p_updated_at :: "string option"


subsection \<open>Python operations on JSON values\<close>







text \<open>
  \<^verbatim>\<open>request.args.get(name, type=float)\<close>: the parameter converted by \<^verbatim>\<open>float\<close>, and
  \<^verbatim>\<open>None\<close> when it is missing or does not convert.
\<close>

definition args_get_float :: "(string \<Rightarrow> rat option) \<Rightarrow> string option \<Rightarrow> rat option" where
  "args_get_float str_to_float arg =
    (case arg of None \<Rightarrow> None | Some s \<Rightarrow> str_to_float s)"

text \<open>\<^verbatim>\<open>str.lower()\<close> on ASCII text: the letters A to Z are mapped to a to z.\<close>

definition lower_char :: "char \<Rightarrow> char" where
  "lower_char c =
    (case map_of (zip ''ABCDEFGHIJKLMNOPQRSTUVWXYZ'' ''abcdefghijklmnopqrstuvwxyz'') c of
       None \<Rightarrow> c
     | Some l \<Rightarrow> l)"

definition str_lower :: "string \<Rightarrow> string" where
  "str_lower s = map lower_char s"

subsection \<open>Handlers\<close>

text \<open>
  The category comprehension calls \<^verbatim>\<open>p['category'].lower()\<close> on every product in turn;
  a category that is not a string raises \<^verbatim>\<open>AttributeError\<close>, which ends the request
  with 500.
\<close>

fun filter_category :: "string \<Rightarrow> product list \<Rightarrow> error + product list" where
  "filter_category category [] = Inr []"
| "filter_category category (p # ps) =
     (case p_category p of
        JStr s \<Rightarrow>
          (case filter_category category ps of
             Inl e \<Rightarrow> Inl e
           | Inr rest \<Rightarrow> Inr (if str_lower s = str_lower category then p # rest else rest))
      | _ \<Rightarrow> Inl InternalError)"

text \<open>
  \<^verbatim>\<open>get_products\<close>: the query parameters arrive as optional strings; the category
  filter runs when its parameter is truthy, a price filter when its parameter converted
  to a float.
\<close>

definition get_products ::
  "(string \<Rightarrow> rat option) \<Rightarrow> string option \<Rightarrow> string option \<Rightarrow> string option \<Rightarrow>
   product list \<Rightarrow> error + product list" where
  "get_products str_to_float category min_arg max_arg st =
    (let min_price = args_get_float str_to_float min_arg;
         max_price = args_get_float str_to_float max_arg;
         filtered_products = st
     in case (if truthy_str category then filter_category (the category) filtered_products
              else Inr filtered_products) of
          Inl e \<Rightarrow> Inl e
        | Inr filtered_products \<Rightarrow>
            let filtered_products =
                  (case min_price of
                     Some m \<Rightarrow> filter (\<lambda>p. m \<le> p_price p) filtered_products
                   | None \<Rightarrow> filtered_products);
                filtered_products =
                  (case max_price of
                     Some m \<Rightarrow> filter (\<lambda>p. p_price p \<le> m) filtered_products
                   | None \<Rightarrow> filtered_products)
            in Inr filtered_products)"

definition get_product :: "string \<Rightarrow> product list \<Rightarrow> error + product" where
  "get_product product_id st =
    (case find (\<lambda>p. p_id p = product_id) st of
       None \<Rightarrow> Inl NotFound
     | Some product \<Rightarrow> Inr product)"



definition delete_product :: "string \<Rightarrow> product list \<Rightarrow> (error + unit) \<times> product list" where
  "delete_product product_id st = (Inr (), filter (\<lambda>p. p_id p \<noteq> product_id) st)"




subsection \<open>Predicates used in the statements\<close>







section \<open>Auxiliary facts\<close>

subsection \<open>Replacing the first match\<close>

lemma update_first_no_match: "find P xs = None \<Longrightarrow> update_first P f xs = xs"
  by (induction xs) (auto split: if_splits)


lemma list_all_update_first:
  "list_all Q xs \<Longrightarrow> (\<And>x. Q x \<Longrightarrow> Q (f x)) \<Longrightarrow> list_all Q (update_first P f xs)"
  by (induction xs) auto

lemma update_first_at:
  "find P xs = Some x \<Longrightarrow>
   \<exists>i<length xs. xs ! i = x \<and> (\<forall>j<i. \<not> P (xs ! j)) \<and> update_first P f xs = xs[i := f x]"
proof (induction xs)
  case Nil
  then show ?case by simp
next
  case (Cons y ys)
  show ?case
  proof (cases "P y")
    case True
    with Cons.prems have "y = x" by simp
    with True show ?thesis by (intro exI [of _ 0]) simp
  next
    case False
    with Cons.prems have "find P ys = Some x" by simp
    from Cons.IH [OF this] obtain i where i: "i < length ys" "ys ! i = x"
      "\<forall>j<i. \<not> P (ys ! j)" "update_first P f ys = ys[i := f x]" by blast
    have "\<forall>j<Suc i. \<not> P ((y # ys) ! j)"
      using False i(3) by (auto simp: less_Suc_eq_0_disj)
    with i False show ?thesis by (intro exI [of _ "Suc i"]) simp
  qed
qed

lemma find_distinct_key:
  "distinct (map k xs) \<Longrightarrow> x \<in> set xs \<Longrightarrow> find (\<lambda>y. k y = k x) xs = Some x"
  by (induction xs) (auto simp: image_iff)

lemma find_member: "x \<in> set xs \<Longrightarrow> P x \<Longrightarrow> \<exists>y. find P xs = Some y"
  by (induction xs) auto

lemma find_filter_neg: "find P (filter (\<lambda>x. \<not> P x) xs) = None"
  by (induction xs) auto

subsection \<open>Python's sum\<close>



section \<open>Order service: the total amount\<close>









section \<open>Order service: validation of a new order\<close>

text \<open>
  C2, as stated, at an empty list of items: the order is accepted, with no items and a
  total of 0, and appended to the list.
\<close>

theorem create_order_empty_items_counterexample:
  "create_order ''u1'' ''t0''
     \<lparr>oc_user_id = ''7'', oc_items = [], oc_shipping_address = ''1 Elm St''\<rparr> orders
   = (Inr \<lparr>o_id = ''order-u1'', o_user_id = ''7'', o_items = [], o_total_amount = 0,
           o_status = ''pending'', o_shipping_address = ''1 Elm St'', o_created_at = ''t0'',
           o_updated_at = None\<rparr>,
      orders @ [\<lparr>o_id = ''order-u1'', o_user_id = ''7'', o_items = [], o_total_amount = 0,
           o_status = ''pending'', o_shipping_address = ''1 Elm St'', o_created_at = ''t0'',
           o_updated_at = None\<rparr>])"
  by (simp add: create_order_def py_sum_def Let_def)

text \<open>
  C2, amended. A call in which some item has a quantity or a price that is not positive
  fails with a validation error (HTTP 422) and the list of orders is unchanged. A call
  with an empty list of items is accepted: an order with no items and total 0 is
  appended.
\<close>

theorem create_order_validation:
  "((\<exists>item \<in> set (oc_items order_data). oi_quantity item \<le> 0 \<or> oi_price item \<le> 0) \<longrightarrow>
      create_order uid now order_data st = (Inl (ValidationError 422), st))
   \<and> (oc_items order_data = [] \<longrightarrow>
        (\<exists>new. create_order uid now order_data st = (Inr new, st @ [new])
               \<and> o_items new = [] \<and> o_total_amount new = 0))"
  by (auto simp: create_order_def order_item_valid_def list_all_iff py_sum_def not_less Let_def)

theorem create_order_validation_witness:
  "create_order ''u1'' ''t0''
     \<lparr>oc_user_id = ''7'',
      oc_items = [\<lparr>oi_product_id = ''3'', oi_quantity = 3, oi_price = 19.99\<rparr>,
                  \<lparr>oi_product_id = ''4'', oi_quantity = 0, oi_price = 149.99\<rparr>],
      oc_shipping_address = ''1 Elm St''\<rparr> orders
     = (Inl (ValidationError 422), orders)
   \<and> create_order ''u2'' ''t0''
     \<lparr>oc_user_id = ''7'',
      oc_items = [\<lparr>oi_product_id = ''3'', oi_quantity = 1, oi_price = - 5\<rparr>],
      oc_shipping_address = ''1 Elm St''\<rparr> orders
     = (Inl (ValidationError 422), orders)
   \<and> length (snd (create_order ''u3'' ''t0''
     \<lparr>oc_user_id = ''7'', oc_items = [], oc_shipping_address = ''1 Elm St''\<rparr> orders)) = 3"
  using create_order_validation
      [where order_data = "\<lparr>oc_user_id = ''7'',
      oc_items = [\<lparr>oi_product_id = ''3'', oi_quantity = 3, oi_price = 19.99\<rparr>,
                  \<lparr>oi_product_id = ''4'', oi_quantity = 0, oi_price = 149.99\<rparr>],
      oc_shipping_address = ''1 Elm St''\<rparr>" and uid = "''u1''" and now = "''t0''" and st = orders]
    create_order_validation
      [where order_data = "\<lparr>oc_user_id = ''7'',
      oc_items = [\<lparr>oi_product_id = ''3'', oi_quantity = 1, oi_price = - 5\<rparr>],
      oc_shipping_address = ''1 Elm St''\<rparr>" and uid = "''u2''" and now = "''t0''" and st = orders]
    create_order_validation
      [where order_data = "\<lparr>oc_user_id = ''7'', oc_items = [],
      oc_shipping_address = ''1 Elm St''\<rparr>" and uid = "''u3''" and now = "''t0''" and st = orders]
  by (auto simp: orders_def Let_def)

section \<open>Order service: the status of stored orders\<close>

text \<open>
  Every request keeps the statuses inside the list of valid statuses once they are all
  inside it.
\<close>

lemma order_step_valid_status:
  assumes "list_all (\<lambda>od. o_status od \<in> set valid_statuses) st"
  shows "list_all (\<lambda>od. o_status od \<in> set valid_statuses) (order_step req st)"
proof (cases req)
  case (CreateOrder uid now order_data)
  then show ?thesis using assms
    by (auto simp: create_order_def Let_def valid_statuses_def)
next
  case (UpdateOrderStatus order_id status now)
  then show ?thesis using assms
    by (auto simp: update_order_status_def intro!: list_all_update_first split: option.splits)
next
  case (CancelOrder order_id)
  then show ?thesis using assms by (simp add: cancel_order_def list_all_iff)
qed (use assms in simp_all)

text \<open>
  C3. The seeded order \<^verbatim>\<open>order-1\<close> has the status \<^verbatim>\<open>completed\<close>, which is not in the
  list of valid statuses that \<open>update_order_status\<close> checks against; listing the orders
  with that status returns it.
\<close>

theorem seed_order_status_not_valid:
  "map o_status orders = [''completed'', ''pending'']
   \<and> ''completed'' \<notin> set valid_statuses
   \<and> map o_status (get_orders None (Some ''completed'') orders) = [''completed'']"
  by (simp add: orders_def valid_statuses_def get_orders_def)

section \<open>Order service: status updates\<close>

text \<open>
  C6. For every order id and every new status outside the list of valid statuses,
  \<open>update_order_status\<close> answers with a validation error (HTTP 400) and the list of
  orders after the call is the list before it: no order's status or \<^verbatim>\<open>updated_at\<close>
  is touched.
\<close>

theorem update_order_status_invalid:
  assumes "status \<notin> set valid_statuses"
  shows "update_order_status order_id status now st = (Inl (ValidationError 400), st)"
  using assms by (simp add: update_order_status_def)

theorem update_order_status_invalid_witness:
  "''bogus'' \<notin> set valid_statuses
   \<and> update_order_status ''order-2'' ''bogus'' ''2024-02-01T00:00:00'' orders
       = (Inl (ValidationError 400), orders)
   \<and> map o_status orders = [''completed'', ''pending'']
   \<and> map o_updated_at orders = [None, None]"
proof -
  have h: "''bogus'' \<notin> set valid_statuses"
    by (simp add: valid_statuses_def)
  show ?thesis
    using h update_order_status_invalid [OF h, of "''order-2''" "''2024-02-01T00:00:00''" orders]
    by (simp add: orders_def)
qed

text \<open>
  C7. For an order present in the list and a new status from the list of valid statuses,
  \<open>update_order_status\<close> called with the order's id succeeds whatever the current
  status is. The lookup yields the first order with that id; that order gets the new
  status and \<^verbatim>\<open>updated_at\<close>, it is returned, and every other position of the list is
  as before. When ids are distinct, the order found is the given one.
\<close>

theorem update_order_status_valid:
  assumes "ord \<in> set st" and "status \<in> set valid_statuses"
  shows "\<exists>cur i. find (\<lambda>od. o_id od = o_id ord) st = Some cur
           \<and> i < length st \<and> st ! i = cur \<and> (\<forall>j<i. o_id (st ! j) \<noteq> o_id ord)
           \<and> update_order_status (o_id ord) status now st
               = (Inr (cur\<lparr>o_status := status, o_updated_at := Some now\<rparr>),
                  st[i := cur\<lparr>o_status := status, o_updated_at := Some now\<rparr>])
           \<and> (distinct (map o_id st) \<longrightarrow> cur = ord)"
proof -
  from assms(1) obtain cur where cur: "find (\<lambda>od. o_id od = o_id ord) st = Some cur"
    using find_member [of ord st "\<lambda>od. o_id od = o_id ord"] by auto
  from update_first_at [OF cur, of "\<lambda>od. od\<lparr>o_status := status, o_updated_at := Some now\<rparr>"]
  obtain i where i: "i < length st" "st ! i = cur" "\<forall>j<i. o_id (st ! j) \<noteq> o_id ord"
    "update_first (\<lambda>od. o_id od = o_id ord) (\<lambda>od. od\<lparr>o_status := status, o_updated_at := Some now\<rparr>) st
       = st[i := cur\<lparr>o_status := status, o_updated_at := Some now\<rparr>]"
    by blast
  have res: "update_order_status (o_id ord) status now st
               = (Inr (cur\<lparr>o_status := status, o_updated_at := Some now\<rparr>),
                  st[i := cur\<lparr>o_status := status, o_updated_at := Some now\<rparr>])"
    using assms(2) cur i(4) by (simp add: update_order_status_def)
  have "distinct (map o_id st) \<longrightarrow> cur = ord"
    using find_distinct_key [of o_id st ord] assms(1) cur by auto
  with cur i res show ?thesis by blast
qed

text \<open>The seeded order \<^verbatim>\<open>order-2\<close> is cancelled and then moved to shipped.\<close>

theorem update_order_status_valid_witness:
  "map o_status (snd (update_order_status ''order-2'' ''cancelled'' ''t1'' orders))
     = [''completed'', ''cancelled'']
   \<and> distinct (map o_id (snd (update_order_status ''order-2'' ''cancelled'' ''t1'' orders)))
   \<and> update_order_status ''order-2'' ''shipped'' ''t2''
       (snd (update_order_status ''order-2'' ''cancelled'' ''t1'' orders))
     = (Inr ((orders ! 1)\<lparr>o_status := ''shipped'', o_updated_at := Some ''t2''\<rparr>),
        [orders ! 0, (orders ! 1)\<lparr>o_status := ''shipped'', o_updated_at := Some ''t2''\<rparr>])"
proof -
  let ?st = "snd (update_order_status ''order-2'' ''cancelled'' ''t1'' orders)"
  let ?ord = "(orders ! 1)\<lparr>o_status := ''cancelled'', o_updated_at := Some ''t1''\<rparr>"
  have m: "?ord \<in> set ?st"
    by (simp add: update_order_status_def valid_statuses_def orders_def)
  have v: "''shipped'' \<in> set valid_statuses"
    by (simp add: valid_statuses_def)
  show ?thesis
    using update_order_status_valid [OF m v, of "''t2''"]
    by (simp add: update_order_status_def valid_statuses_def orders_def)
qed

section \<open>Product service: the sign of the price\<close>












section \<open>Product service: filtered listing\<close>





section \<open>Product service: partial update\<close>




section \<open>Product service: deletion\<close>

text \<open>
  C9. \<open>delete_product\<close> never fails, \<open>get_product\<close> on the deleted id then answers
  not found, and a second deletion of the same id does not fail either and leaves the
  list as the first deletion left it.
\<close>

theorem delete_product_idempotent:
  "fst (delete_product product_id st) = Inr ()
   \<and> get_product product_id (snd (delete_product product_id st)) = Inl NotFound
   \<and> fst (delete_product product_id (snd (delete_product product_id st))) = Inr ()
   \<and> snd (delete_product product_id (snd (delete_product product_id st)))
       = snd (delete_product product_id st)"
  using find_filter_neg [of "\<lambda>p. p_id p = product_id" st]
  by (simp add: delete_product_def get_product_def)

section \<open>Empty strings as filter values\<close>

text \<open>
  C10. An empty string as a filter value is treated as an absent filter:
  \<open>get_products\<close> with the category \<^verbatim>\<open>""\<close> answers as without a category, and
  returns the whole list when no price bound is given; \<open>get_orders\<close> with the user id
  or the status \<^verbatim>\<open>""\<close> answers as without that filter, and returns the whole list
  when the other filter is absent or empty too.
\<close>

theorem empty_string_filter_is_absent:
  "get_products str_to_float (Some '''') min_arg max_arg st
     = get_products str_to_float None min_arg max_arg st
   \<and> get_products str_to_float (Some '''') None None st = Inr st
   \<and> get_orders (Some '''') status ost = get_orders None status ost
   \<and> get_orders user_id (Some '''') ost = get_orders user_id None ost
   \<and> get_orders (Some '''') None ost = ost
   \<and> get_orders None (Some '''') ost = ost
   \<and> get_orders (Some '''') (Some '''') ost = ost"
  by (simp add: get_products_def get_orders_def args_get_float_def)

end
